theory Spec2Isabelle
  imports Complex_Main "HOL-Library.Word" "HOL-Library.Sublist"
begin

section \<open>Go values used by the provider\<close>

subsection \<open>Errors\<close>

text \<open>
  A Go \<^verbatim>\<open>error\<close> is modelled by its structure: the sentinel
  \<^verbatim>\<open>garmErrors.ErrNotFound\<close>, an error made from a message
  (\<^verbatim>\<open>fmt.Errorf\<close> without \<^verbatim>\<open>%w\<close>, or any error of a collaborator), and an
  error that wraps another one (\<^verbatim>\<open>fmt.Errorf("prefix: %w", err)\<close>).
  The constructor \<open>Wrapped\<close> keeps the prefix as the source writes it, colon and space
  included.
\<close>

datatype go_error = ErrNotFound | ErrorString string | Wrapped string go_error

text \<open>\<^verbatim>\<open>err.Error()\<close>: a wrapping error prints its prefix, then the wrapped message.\<close>

fun error_msg :: "go_error \<Rightarrow> string" where
  "error_msg ErrNotFound = ''not found''"
| "error_msg (ErrorString s) = s"
| "error_msg (Wrapped p e) = p @ error_msg e"

text \<open>\<^verbatim>\<open>errors.Is(err, target)\<close>: walks the chain of wrapped errors.\<close>

fun errors_Is :: "go_error \<Rightarrow> go_error \<Rightarrow> bool" where
  "errors_Is (Wrapped p e) target = (Wrapped p e = target \<or> errors_Is e target)"
| "errors_Is e target = (e = target)"

text \<open>
  A call that dereferences a nil pointer does not return: the Go runtime panics.
  Every function of the source that dereferences a pointer returns an \<open>exec\<close>.
\<close>

datatype 'a exec = Return 'a | NilDereference

subsection \<open>The cloud instance record\<close>

text \<open>
  \<^verbatim>\<open>core.InstanceLifecycleStateEnum\<close> of the OCI SDK is a string type with the
  constants below; any other string is a state this version of the SDK does not know.
\<close>

datatype InstanceLifecycleState =
    Moving | Provisioning | Running | Starting | Stopping | Stopped
  | CreatingImage | Terminating | Terminated | OtherState string

text \<open>
  \<^verbatim>\<open>core.Instance\<close>, with the fields the provider reads. \<^verbatim>\<open>Id\<close> is a
  \<^verbatim>\<open>*string\<close>: \<open>None\<close> is the nil pointer. \<^verbatim>\<open>FreeformTags\<close> is a
  \<^verbatim>\<open>map[string]string\<close>.
\<close>

record Instance =
  Id :: "string option"
  FreeformTags :: "string \<rightharpoonup> string"
  LifecycleState :: InstanceLifecycleState

text \<open>Reading a Go map at a key it does not hold gives the zero value, the empty string.\<close>

definition map_index :: "(string \<rightharpoonup> string) \<Rightarrow> string \<Rightarrow> string" where
  "map_index m k = (case m k of None \<Rightarrow> [] | Some v \<Rightarrow> v)"

subsection \<open>The normalized instance\<close>

text \<open>
  \<^verbatim>\<open>params.InstanceStatus\<close>, \<^verbatim>\<open>params.OSType\<close> and \<^verbatim>\<open>params.OSArch\<close> are
  string types of garm-provider-common; the constants below have the values that package
  gives them (the tests compare \<^verbatim>\<open>params.Linux\<close> with \<^verbatim>\<open>"linux"\<close> and the status of a
  created instance with \<^verbatim>\<open>"running"\<close>).
\<close>

type_synonym InstanceStatus = string
type_synonym OSType = string
type_synonym OSArch = string

definition InstanceRunning :: InstanceStatus where "InstanceRunning = ''running''"
definition InstanceStopped :: InstanceStatus where "InstanceStopped = ''stopped''"
definition InstanceStatusUnknown :: InstanceStatus where "InstanceStatusUnknown = ''unknown''"

definition Linux :: OSType where "Linux = ''linux''"
definition Windows :: OSType where "Windows = ''windows''"

record ProviderInstance =
  ProviderID :: string
  Name :: string
  OSType :: OSType
  OSArch :: OSArch
  Status :: InstanceStatus

section \<open>internal/util: OciInstanceToProviderInstance\<close>

definition OciInstanceToProviderInstance :: "Instance \<Rightarrow> ProviderInstance exec" where
  "OciInstanceToProviderInstance ociInstance =
     (case Id ociInstance of
        None \<Rightarrow> NilDereference
      | Some ident \<Rightarrow>
          Return \<lparr> ProviderID = ident,
                   Name = map_index (FreeformTags ociInstance) ''Name'',
                   OSType = map_index (FreeformTags ociInstance) ''OSType'',
                   OSArch = map_index (FreeformTags ociInstance) ''OSArch'',
                   Status =
                     (case LifecycleState ociInstance of
                        Running \<Rightarrow> InstanceRunning
                      | Stopped \<Rightarrow> InstanceStopped
                      | Terminated \<Rightarrow> InstanceStopped
                      | _ \<Rightarrow> InstanceStatusUnknown) \<rparr>)"

section \<open>config: the provider configuration\<close>

record Config =
  AvailabilityDomain :: string
  CompartmentId :: string
  SubnetID :: string
  NsgID :: string
  TenancyID :: string
  UserID :: string
  Region :: string
  Fingerprint :: string
  PrivateKeyPath :: string
  PrivateKeyPassword :: string

section \<open>internal/spec: extra specs and the runner spec\<close>

text \<open>
  The sources hold three revisions of this file: \<^verbatim>\<open>src/unnamed/part_001\<close>, then the
  first and the second document of \<^verbatim>\<open>src/unnamed/part_002\<close>. The package is embedded
  from the last one, which the tests of \<^verbatim>\<open>src/unnamed/part_003\<close> exercise; where an
  earlier revision differs on a property stated below, it is said there.
\<close>

subsection \<open>Numbers\<close>

text \<open>
  A \<^verbatim>\<open>float32\<close>: a finite value, an infinity or a NaN. The code only compares such a
  value with zero and copies it, so the finite values are kept as reals.
\<close>

datatype float32 = Finite real | PosInf | NegInf | NaN

text \<open>The Go comparison \<^verbatim>\<open>x > 0\<close> on a \<^verbatim>\<open>float32\<close>: false on a NaN.\<close>

fun float32_gt_zero :: "float32 \<Rightarrow> bool" where
  "float32_gt_zero (Finite r) = (0 < r)"
| "float32_gt_zero PosInf = True"
| "float32_gt_zero NegInf = False"
| "float32_gt_zero NaN = False"

type_synonym int64 = "64 word"

definition defaultMemoryAllocation :: float32 where "defaultMemoryAllocation = Finite 4"
definition defaultOcpusAllocation :: float32 where "defaultOcpusAllocation = Finite 1"
definition defaultBootVolumeSize :: int64 where "defaultBootVolumeSize = 255"

subsection \<open>The bootstrap request\<close>

text \<open>
  \<^verbatim>\<open>params.RunnerApplicationDownload\<close>, \<^verbatim>\<open>params.UserDataOptions\<close> and
  \<^verbatim>\<open>params.BootstrapInstance\<close> of garm-provider-common, with the fields the provider
  and its tests use. \<^verbatim>\<open>ExtraSpecs\<close> is a \<^verbatim>\<open>json.RawMessage\<close>, a byte slice.
\<close>

record RunnerApplicationDownload =
  OS :: "string option"
  Architecture :: "string option"
  DownloadURL :: "string option"
  Filename :: "string option"

record UserDataOptions =
  DisableUpdatesOnBoot :: bool
  ExtraPackages :: "string list"
  EnableBootDebug :: bool

record BootstrapInstance =
  Name :: string
  Tools :: "RunnerApplicationDownload list"
  OSArch :: OSArch
  OSType :: OSType
  Flavor :: string
  Image :: string
  PoolID :: string
  ExtraSpecs :: string
  UserDataOptions :: UserDataOptions

subsection \<open>The overlay and the runner spec\<close>

text \<open>\<^verbatim>\<open>cloudconfig.CloudConfigSpec\<close>, embedded in the overlay.\<close>

record CloudConfigSpec =
  RunnerInstallTemplate :: string
  PreInstallScripts :: "string \<rightharpoonup> string"
  ExtraContext :: "string \<rightharpoonup> string"

record extraSpecs =
  Ocpus :: float32
  MemoryInGBs :: float32
  BootVolumeSize :: int64
  SSHPublicKeys :: "string list"
  DisableUpdates :: bool
  EnableBootDebug :: bool
  ExtraPackages :: "string list"
  CloudConfigSpec :: CloudConfigSpec

text \<open>\<^verbatim>\<open>&extraSpecs{}\<close>: every field at its zero value.\<close>

definition zero_extraSpecs :: extraSpecs where
  "zero_extraSpecs =
     \<lparr> Ocpus = Finite 0, MemoryInGBs = Finite 0, BootVolumeSize = 0, SSHPublicKeys = [],
       DisableUpdates = False, EnableBootDebug = False, ExtraPackages = [],
       CloudConfigSpec =
         \<lparr> RunnerInstallTemplate = [], PreInstallScripts = Map.empty,
           ExtraContext = Map.empty \<rparr> \<rparr>"

text \<open>\<^verbatim>\<open>RunnerSpec\<close>; its mutex holds no data and is left out.\<close>

record RunnerSpec =
  AvailabilityDomain :: string
  CompartmentID :: string
  SubnetID :: string
  NsgID :: string
  BootVolumeSize :: int64
  UserData :: string
  ControllerID :: string
  Ocpus :: float32
  MemoryInGBs :: float32
  SSHPublicKeys :: "string list"
  DisableUpdates :: bool
  ExtraPackages :: "string list"
  EnableBootDebug :: bool
  Tools :: RunnerApplicationDownload
  BootstrapParams :: BootstrapInstance

subsection \<open>Collaborators of the spec package\<close>

text \<open>
  The functions the package calls and does not own:
  \<^item> \<open>ToolFetch\<close>: the variable \<^verbatim>\<open>DefaultToolFetch\<close>, a \<^verbatim>\<open>ToolFetchFunc\<close>;
  \<^item> \<open>SchemaValidate\<close>: \<^verbatim>\<open>gojsonschema.Validate\<close> of the blob against the schema of
    the overlay: an error when the blob cannot be loaded, or else the list of the result's
    errors as they print (empty when \<^verbatim>\<open>result.Valid()\<close>);
  \<^item> \<open>JsonUnmarshal\<close>: \<^verbatim>\<open>json.Unmarshal\<close> of the blob into a zero overlay;
  \<^item> \<open>GetCloudConfig\<close>: \<^verbatim>\<open>cloudconfig.GetCloudConfig\<close>;
  \<^item> \<open>Base64Encode\<close>: \<^verbatim>\<open>base64.StdEncoding.EncodeToString\<close>.
\<close>

record externals =
  ToolFetch ::
    "OSType \<Rightarrow> OSArch \<Rightarrow> RunnerApplicationDownload list \<Rightarrow> go_error + RunnerApplicationDownload"
  SchemaValidate :: "string \<Rightarrow> go_error + string list"
  JsonUnmarshal :: "string \<Rightarrow> go_error + extraSpecs"
  GetCloudConfig ::
    "BootstrapInstance \<Rightarrow> RunnerApplicationDownload \<Rightarrow> string \<Rightarrow> go_error + string"
  Base64Encode :: "string \<Rightarrow> string"

text \<open>A slice of errors printed with \<^verbatim>\<open>%s\<close>: in brackets, separated by spaces.\<close>

fun join_with :: "string \<Rightarrow> string list \<Rightarrow> string" where
  "join_with sep [] = []"
| "join_with sep [x] = x"
| "join_with sep (x # y # rest) = x @ sep @ join_with sep (y # rest)"

definition print_errors :: "string list \<Rightarrow> string" where
  "print_errors errs = ''['' @ join_with '' '' errs @ '']''"

subsection \<open>Validation and parsing\<close>

definition jsonSchemaValidation :: "externals \<Rightarrow> string \<Rightarrow> go_error option" where
  "jsonSchemaValidation ext schema =
     (case SchemaValidate ext schema of
        Inl err \<Rightarrow> Some (Wrapped ''failed to validate schema: '' err)
      | Inr errs \<Rightarrow>
          (if errs \<noteq> []
           then Some (ErrorString (''schema validation failed: '' @ print_errors errs))
           else None))"

definition newExtraSpecsFromBootstrapData ::
  "externals \<Rightarrow> BootstrapInstance \<Rightarrow> go_error + extraSpecs" where
  "newExtraSpecsFromBootstrapData ext data =
     (case jsonSchemaValidation ext (ExtraSpecs data) of
        Some err \<Rightarrow> Inl (Wrapped ''failed to validate extra specs: '' err)
      | None \<Rightarrow>
          (if length (ExtraSpecs data) > 0
           then (case JsonUnmarshal ext (ExtraSpecs data) of
                   Inl err \<Rightarrow> Inl (Wrapped ''failed to unmarshal extra specs: '' err)
                 | Inr spec \<Rightarrow> Inr spec)
           else Inr zero_extraSpecs))"

subsection \<open>The merge\<close>

text \<open>One assignment of the source per line; the receiver is returned updated.\<close>

definition MergeExtraSpecs :: "RunnerSpec \<Rightarrow> extraSpecs \<Rightarrow> RunnerSpec" where
  "MergeExtraSpecs r es =
     (let r = r\<lparr> RunnerSpec.Ocpus := defaultOcpusAllocation \<rparr>;
          r = (if float32_gt_zero (extraSpecs.Ocpus es)
               then r\<lparr> RunnerSpec.Ocpus := extraSpecs.Ocpus es \<rparr> else r);
          r = r\<lparr> RunnerSpec.MemoryInGBs := defaultMemoryAllocation \<rparr>;
          r = (if float32_gt_zero (extraSpecs.MemoryInGBs es)
               then r\<lparr> RunnerSpec.MemoryInGBs := extraSpecs.MemoryInGBs es \<rparr> else r);
          r = r\<lparr> RunnerSpec.BootVolumeSize := defaultBootVolumeSize \<rparr>;
          r = (if 0 <s extraSpecs.BootVolumeSize es
               then r\<lparr> RunnerSpec.BootVolumeSize := extraSpecs.BootVolumeSize es \<rparr> else r);
          r = (if length (extraSpecs.SSHPublicKeys es) > 0
               then r\<lparr> RunnerSpec.SSHPublicKeys := extraSpecs.SSHPublicKeys es \<rparr> else r);
          r = (if extraSpecs.DisableUpdates es
               then r\<lparr> RunnerSpec.DisableUpdates := extraSpecs.DisableUpdates es \<rparr> else r);
          r = (if extraSpecs.EnableBootDebug es
               then r\<lparr> RunnerSpec.EnableBootDebug := extraSpecs.EnableBootDebug es \<rparr> else r)
      in r)"

subsection \<open>The merge of the earlier revision\<close>

text \<open>
  The first document of \<^verbatim>\<open>src/unnamed/part_002\<close> is an earlier revision of the same
  file. Its overlay declares the two toggles as \<^verbatim>\<open>*bool\<close> (\<open>None\<close> is the nil pointer
  of a key the blob does not hold) and has no embedded cloud-config fields; its runner spec
  has the fields of the later one. Its merge assigns a toggle whenever the pointer is not
  nil.
\<close>

record extraSpecs_ptr =
  ptr_Ocpus :: float32
  ptr_MemoryInGBs :: float32
  ptr_BootVolumeSize :: int64
  ptr_SSHPublicKeys :: "string list"
  ptr_DisableUpdates :: "bool option"
  ptr_EnableBootDebug :: "bool option"
  ptr_ExtraPackages :: "string list"

definition MergeExtraSpecs_ptr :: "RunnerSpec \<Rightarrow> extraSpecs_ptr \<Rightarrow> RunnerSpec" where
  "MergeExtraSpecs_ptr r es =
     (let r = r\<lparr> RunnerSpec.Ocpus := defaultOcpusAllocation \<rparr>;
          r = (if float32_gt_zero (ptr_Ocpus es)
               then r\<lparr> RunnerSpec.Ocpus := ptr_Ocpus es \<rparr> else r);
          r = r\<lparr> RunnerSpec.MemoryInGBs := defaultMemoryAllocation \<rparr>;
          r = (if float32_gt_zero (ptr_MemoryInGBs es)
               then r\<lparr> RunnerSpec.MemoryInGBs := ptr_MemoryInGBs es \<rparr> else r);
          r = r\<lparr> RunnerSpec.BootVolumeSize := defaultBootVolumeSize \<rparr>;
          r = (if 0 <s ptr_BootVolumeSize es
               then r\<lparr> RunnerSpec.BootVolumeSize := ptr_BootVolumeSize es \<rparr> else r);
          r = (if length (ptr_SSHPublicKeys es) > 0
               then r\<lparr> RunnerSpec.SSHPublicKeys := ptr_SSHPublicKeys es \<rparr> else r);
          r = (case ptr_DisableUpdates es of
                 Some b \<Rightarrow> r\<lparr> RunnerSpec.DisableUpdates := b \<rparr>
               | None \<Rightarrow> r);
          r = (case ptr_EnableBootDebug es of
                 Some b \<Rightarrow> r\<lparr> RunnerSpec.EnableBootDebug := b \<rparr>
               | None \<Rightarrow> r)
      in r)"

subsection \<open>The boot payload\<close>

definition ComposeUserData :: "externals \<Rightarrow> RunnerSpec \<Rightarrow> go_error + string" where
  "ComposeUserData ext r =
     (let bootstrapParams = BootstrapParams r;
          opts = BootstrapInstance.UserDataOptions bootstrapParams;
          opts = opts\<lparr> DisableUpdatesOnBoot := RunnerSpec.DisableUpdates r \<rparr>;
          opts = opts\<lparr> UserDataOptions.ExtraPackages := RunnerSpec.ExtraPackages r \<rparr>;
          opts = opts\<lparr> UserDataOptions.EnableBootDebug := RunnerSpec.EnableBootDebug r \<rparr>;
          bootstrapParams = bootstrapParams\<lparr> BootstrapInstance.UserDataOptions := opts \<rparr>
      in if BootstrapInstance.OSType (BootstrapParams r) = Linux
            \<or> BootstrapInstance.OSType (BootstrapParams r) = Windows
         then (case GetCloudConfig ext bootstrapParams (RunnerSpec.Tools r)
                      (BootstrapInstance.Name bootstrapParams) of
                 Inl err \<Rightarrow> Inl (Wrapped ''failed to generate userdata: '' err)
               | Inr udata \<Rightarrow> Inr udata)
         else Inl (ErrorString (''unsupported OS type for cloud config: ''
                                  @ BootstrapInstance.OSType bootstrapParams)))"

definition SetUserData :: "externals \<Rightarrow> RunnerSpec \<Rightarrow> go_error + RunnerSpec" where
  "SetUserData ext r =
     (case ComposeUserData ext r of
        Inl err \<Rightarrow> Inl (Wrapped ''failed to compose userdata: '' err)
      | Inr customData \<Rightarrow>
          (if length customData = 0
           then Inl (ErrorString ''failed to generate custom data'')
           else Inr (r\<lparr> UserData := Base64Encode ext customData \<rparr>)))"

subsection \<open>Building the runner spec\<close>

text \<open>
  The fields the composite literal does not set are at their zero values. The first
  document of \<^verbatim>\<open>part_002\<close> builds the spec the same way. The revision of
  \<^verbatim>\<open>part_001\<close> calls \<^verbatim>\<open>util.GetTools\<close> itself and does not check the error of
  \<^verbatim>\<open>SetUserData\<close>.
\<close>

definition GetRunnerSpecFromBootstrapParams ::
  "externals \<Rightarrow> Config \<Rightarrow> BootstrapInstance \<Rightarrow> string \<Rightarrow> go_error + RunnerSpec" where
  "GetRunnerSpecFromBootstrapParams ext cfg data controllerID =
     (case ToolFetch ext (BootstrapInstance.OSType data) (BootstrapInstance.OSArch data)
             (BootstrapInstance.Tools data) of
        Inl err \<Rightarrow> Inl (ErrorString (''failed to get tools: '' @ error_msg err))
      | Inr tools \<Rightarrow>
          (case newExtraSpecsFromBootstrapData ext data of
             Inl err \<Rightarrow> Inl (Wrapped ''error loading extra specs: '' err)
           | Inr es \<Rightarrow>
               (let spec =
                      \<lparr> AvailabilityDomain = Config.AvailabilityDomain cfg,
                        CompartmentID = CompartmentId cfg,
                        SubnetID = Config.SubnetID cfg,
                        NsgID = Config.NsgID cfg,
                        BootVolumeSize = 0,
                        UserData = [],
                        ControllerID = controllerID,
                        Ocpus = Finite 0,
                        MemoryInGBs = Finite 0,
                        SSHPublicKeys = [],
                        DisableUpdates = False,
                        ExtraPackages = extraSpecs.ExtraPackages es,
                        EnableBootDebug = False,
                        Tools = tools,
                        BootstrapParams = data \<rparr>;
                    spec = MergeExtraSpecs spec es
                in (case SetUserData ext spec of
                      Inl err \<Rightarrow> Inl (Wrapped ''error setting extra specs: '' err)
                    | Inr spec \<Rightarrow> Inr spec))))"

section \<open>internal/client: the OCI client\<close>

text \<open>
  \<^verbatim>\<open>core.LaunchInstanceRequest\<close>, with the fields \<^verbatim>\<open>CreateInstance\<close> sets. Its
  pointers point at fields of the runner spec, so none is nil.
\<close>

record LaunchInstanceDetails =
  lid_CompartmentId :: string
  lid_AvailabilityDomain :: string
  lid_DisplayName :: string
  lid_Shape :: string
  lid_SubnetId :: string
  lid_NsgIds :: "string list"
  lid_Ocpus :: float32
  lid_MemoryInGBs :: float32
  lid_FreeformTags :: "string \<rightharpoonup> string"
  lid_Metadata :: "string \<rightharpoonup> string"
  lid_ImageId :: string
  lid_BootVolumeSizeInGBs :: int64

text \<open>
  \<^verbatim>\<open>ClientInterface\<close>: the compute API, a collaborator. Each method is given by what
  it answers to a request: an error, or the response's payload. The get, terminate and list
  requests carry one identifier each (the instance, the instance, the compartment).
\<close>

record ClientInterface =
  LaunchInstance :: "LaunchInstanceDetails \<Rightarrow> go_error + Instance"
  GetInstance :: "string \<Rightarrow> go_error + Instance"
  TerminateInstance :: "string \<Rightarrow> go_error option"
  ListInstances :: "string \<Rightarrow> go_error + Instance list"

record OciCli =
  cfg :: Config
  computeClient :: ClientInterface

text \<open>
  The inner loop of \<^verbatim>\<open>FindInstanceByTags\<close>,
  \<^verbatim>\<open>for key, value := range tags { if instance.FreeformTags[key] != value { return nil, nil } }\<close>:
  \<open>True\<close> when the loop reaches its \<^verbatim>\<open>return nil, nil\<close>. The constraint map is
  given as the list of its entries in the order the iteration visits them.
\<close>

fun tags_differ :: "(string \<times> string) list \<Rightarrow> (string \<rightharpoonup> string) \<Rightarrow> bool" where
  "tags_differ [] ft = False"
| "tags_differ ((key, val) # rest) ft =
     (if map_index ft key \<noteq> val then True else tags_differ rest ft)"

text \<open>
  The outer loop over \<^verbatim>\<open>computeInstances.Items\<close>. \<open>None\<close> is the nil pointer of
  \<^verbatim>\<open>return nil, nil\<close>.
\<close>

fun scan_items :: "Instance list \<Rightarrow> (string \<times> string) list \<Rightarrow> Instance option" where
  "scan_items [] tags = None"
| "scan_items (instance # rest) tags =
     (if LifecycleState instance \<noteq> Terminated
      then (if tags_differ tags (FreeformTags instance) then None else Some instance)
      else scan_items rest tags)"

definition FindInstanceByTags ::
  "OciCli \<Rightarrow> (string \<times> string) list \<Rightarrow> go_error + Instance option" where
  "FindInstanceByTags o_cli tags =
     (case ListInstances (computeClient o_cli) (CompartmentId (cfg o_cli)) of
        Inl err \<Rightarrow> Inl (Wrapped ''error listing instances: '' err)
      | Inr items \<Rightarrow> Inr (scan_items items tags))"

text \<open>The tail shared by both branches of \<^verbatim>\<open>DeleteInstance\<close>: the terminate request.\<close>

definition terminate_request :: "OciCli \<Rightarrow> string \<Rightarrow> go_error option" where
  "terminate_request o_cli inst =
     (case TerminateInstance (computeClient o_cli) inst of
        Some err \<Rightarrow> Some (Wrapped ''error terminating instance: '' err)
      | None \<Rightarrow> None)"

text \<open>
  \<^verbatim>\<open>DeleteInstance\<close> returns an \<^verbatim>\<open>error\<close>: \<open>Return None\<close> is \<^verbatim>\<open>return nil\<close>.
  \<^verbatim>\<open>inst = *tmp.Id\<close> dereferences \<^verbatim>\<open>tmp\<close>, then \<^verbatim>\<open>tmp.Id\<close>.
\<close>

definition OciCli_DeleteInstance :: "OciCli \<Rightarrow> string \<Rightarrow> go_error option exec" where
  "OciCli_DeleteInstance o_cli instanceID =
     (if prefix ''ocid1.instance'' instanceID
      then Return (terminate_request o_cli instanceID)
      else (case FindInstanceByTags o_cli [(''Name'', instanceID)] of
              Inl err \<Rightarrow>
                (if errors_Is err ErrNotFound then Return None
                 else Return (Some (Wrapped ''failed to determine instance: '' err)))
            | Inr None \<Rightarrow> NilDereference
            | Inr (Some tmp) \<Rightarrow>
                (case Id tmp of
                   None \<Rightarrow> NilDereference
                 | Some inst \<Rightarrow> Return (terminate_request o_cli inst))))"

text \<open>The tail shared by both branches of \<^verbatim>\<open>GetInstance\<close>: the point lookup.\<close>

definition get_request :: "OciCli \<Rightarrow> string \<Rightarrow> go_error + Instance" where
  "get_request o_cli inst =
     (case GetInstance (computeClient o_cli) inst of
        Inl err \<Rightarrow> Inl (Wrapped ''error getting instance: '' err)
      | Inr resp \<Rightarrow> Inr resp)"

definition OciCli_GetInstance :: "OciCli \<Rightarrow> string \<Rightarrow> (go_error + Instance) exec" where
  "OciCli_GetInstance o_cli instanceID =
     (if prefix ''ocid1.instance'' instanceID
      then Return (get_request o_cli instanceID)
      else (case FindInstanceByTags o_cli [(''Name'', instanceID)] of
              Inl err \<Rightarrow>
                (if errors_Is err ErrNotFound
                 then Return (Inl (ErrorString ''instance not found''))
                 else Return (Inl (Wrapped ''failed to determine instance: '' err)))
            | Inr None \<Rightarrow> NilDereference
            | Inr (Some tmp) \<Rightarrow>
                (case Id tmp of
                   None \<Rightarrow> NilDereference
                 | Some inst \<Rightarrow> Return (get_request o_cli inst))))"

definition OciCli_ListInstances :: "OciCli \<Rightarrow> string \<Rightarrow> go_error + Instance list" where
  "OciCli_ListInstances o_cli poolID =
     (case ListInstances (computeClient o_cli) (CompartmentId (cfg o_cli)) of
        Inl err \<Rightarrow> Inl (Wrapped ''error listing instances: '' err)
      | Inr items \<Rightarrow>
          Inr (filter (\<lambda>instance.
                 map_index (FreeformTags instance) ''GARM_POOL_ID'' = poolID
                 \<and> LifecycleState instance \<noteq> Terminated) items))"

text \<open>The launch request \<^verbatim>\<open>CreateInstance\<close> builds from the runner spec.\<close>

definition launch_request :: "RunnerSpec \<Rightarrow> LaunchInstanceDetails" where
  "launch_request spec =
     \<lparr> lid_CompartmentId = CompartmentID spec,
       lid_AvailabilityDomain = RunnerSpec.AvailabilityDomain spec,
       lid_DisplayName = BootstrapInstance.Name (BootstrapParams spec),
       lid_Shape = Flavor (BootstrapParams spec),
       lid_SubnetId = RunnerSpec.SubnetID spec,
       lid_NsgIds = [RunnerSpec.NsgID spec],
       lid_Ocpus = RunnerSpec.Ocpus spec,
       lid_MemoryInGBs = RunnerSpec.MemoryInGBs spec,
       lid_FreeformTags =
         [''Name'' \<mapsto> BootstrapInstance.Name (BootstrapParams spec),
          ''GARM_POOL_ID'' \<mapsto> PoolID (BootstrapParams spec),
          ''OSType'' \<mapsto> BootstrapInstance.OSType (BootstrapParams spec),
          ''OSArch'' \<mapsto> BootstrapInstance.OSArch (BootstrapParams spec),
          ''GARM_CONTROLLER_ID'' \<mapsto> ControllerID spec],
       lid_Metadata =
         [''user_data'' \<mapsto> UserData spec,
          ''ssh_authorized_keys'' \<mapsto> join_with [CHR 0x0A] (RunnerSpec.SSHPublicKeys spec)],
       lid_ImageId = Image (BootstrapParams spec),
       lid_BootVolumeSizeInGBs = RunnerSpec.BootVolumeSize spec \<rparr>"

definition OciCli_CreateInstance :: "OciCli \<Rightarrow> RunnerSpec \<Rightarrow> go_error + Instance" where
  "OciCli_CreateInstance o_cli spec =
     (case LaunchInstance (computeClient o_cli) (launch_request spec) of
        Inl err \<Rightarrow> Inl (Wrapped ''error creating instance: '' err)
      | Inr response \<Rightarrow> Inr response)"

section \<open>provider: the lifecycle operations\<close>

record OciProvider =
  cfg :: Config
  ociCli :: OciCli
  controllerID :: string

text \<open>
  \<^verbatim>\<open>CreateInstance\<close> reads \<^verbatim>\<open>*ociInstance.Id\<close> and sets the status to the constant
  \<^verbatim>\<open>"running"\<close>.
\<close>

definition OciProvider_CreateInstance ::
  "externals \<Rightarrow> OciProvider \<Rightarrow> BootstrapInstance \<Rightarrow> (go_error + ProviderInstance) exec" where
  "OciProvider_CreateInstance ext o_prov bootstrapParams =
     (case GetRunnerSpecFromBootstrapParams ext (OciProvider.cfg o_prov) bootstrapParams
             (controllerID o_prov) of
        Inl err \<Rightarrow> Return (Inl (Wrapped ''error getting runner spec: '' err))
      | Inr spec \<Rightarrow>
          (case OciCli_CreateInstance (ociCli o_prov) spec of
             Inl err \<Rightarrow> Return (Inl (Wrapped ''error creating instance: '' err))
           | Inr ociInstance \<Rightarrow>
               (case Id ociInstance of
                  None \<Rightarrow> NilDereference
                | Some ident \<Rightarrow>
                    Return (Inr \<lparr> ProviderID = ident,
                                  ProviderInstance.Name = BootstrapInstance.Name (BootstrapParams spec),
                                  ProviderInstance.OSType =
                                    BootstrapInstance.OSType (BootstrapParams spec),
                                  ProviderInstance.OSArch =
                                    BootstrapInstance.OSArch (BootstrapParams spec),
                                  Status = ''running'' \<rparr>))))"

definition OciProvider_GetInstance ::
  "OciProvider \<Rightarrow> string \<Rightarrow> (go_error + ProviderInstance) exec" where
  "OciProvider_GetInstance o_prov instanceID =
     (case OciCli_GetInstance (ociCli o_prov) instanceID of
        NilDereference \<Rightarrow> NilDereference
      | Return (Inl err) \<Rightarrow> Return (Inl (Wrapped ''error getting instance: '' err))
      | Return (Inr ociInstance) \<Rightarrow>
          (case OciInstanceToProviderInstance ociInstance of
             NilDereference \<Rightarrow> NilDereference
           | Return providerInstance \<Rightarrow> Return (Inr providerInstance)))"

definition OciProvider_DeleteInstance :: "OciProvider \<Rightarrow> string \<Rightarrow> go_error option exec" where
  "OciProvider_DeleteInstance o_prov instanceID = OciCli_DeleteInstance (ociCli o_prov) instanceID"

section \<open>Collaborators and inputs of the tests\<close>

text \<open>
  The tool fetch the tests install in \<^verbatim>\<open>DefaultToolFetch\<close> answers the same download
  for every request. The other collaborators stand for the libraries: a validator that
  cannot load an empty document and accepts every other one, a decoder that answers the
  zero overlay, a cloud-config renderer with a fixed answer, and an encoder that copies.
\<close>

definition Mocktools :: RunnerApplicationDownload where
  "Mocktools =
     \<lparr> OS = Some ''linux'', Architecture = Some ''amd64'', DownloadURL = Some ''MockURL'',
       Filename = Some ''garm-runner'' \<rparr>"

definition mock_externals :: externals where
  "mock_externals =
     \<lparr> ToolFetch = (\<lambda>osType osArch tools. Inr Mocktools),
       SchemaValidate = (\<lambda>blob. if blob = [] then Inl (ErrorString ''EOF'') else Inr []),
       JsonUnmarshal = (\<lambda>blob. Inr zero_extraSpecs),
       GetCloudConfig = (\<lambda>bootstrapParams tools name. Inr ''#cloud-config''),
       Base64Encode = (\<lambda>bytes. bytes) \<rparr>"

definition test_bootstrap :: "OSType \<Rightarrow> string \<Rightarrow> BootstrapInstance" where
  "test_bootstrap osType blob =
     \<lparr> BootstrapInstance.Name = ''garm-instance'', BootstrapInstance.Tools = [Mocktools],
       BootstrapInstance.OSArch = ''amd64'', BootstrapInstance.OSType = osType,
       Flavor = ''VM.Standard.E4.Flex'', Image = ''ocid1.image.oc1.iad.aaaaaaaamf7'',
       PoolID = ''my-pool'', ExtraSpecs = blob,
       BootstrapInstance.UserDataOptions =
         \<lparr> DisableUpdatesOnBoot = False, UserDataOptions.ExtraPackages = [],
           UserDataOptions.EnableBootDebug = False \<rparr> \<rparr>"

definition test_spec :: RunnerSpec where
  "test_spec =
     \<lparr> AvailabilityDomain = ''ad'', CompartmentID = ''compartment'', SubnetID = ''subnet'',
       NsgID = ''nsg'', BootVolumeSize = 128, UserData = [], ControllerID = ''controller'',
       Ocpus = Finite 1, MemoryInGBs = Finite 4,
       SSHPublicKeys = [''ssh-rsa AAAAB3NzaC1yc2EAAAADAQABAAABgQC''],
       DisableUpdates = True, ExtraPackages = [], EnableBootDebug = True,
       Tools = Mocktools, BootstrapParams = test_bootstrap ''linux'' ''{}'' \<rparr>"

text \<open>
  The compute client of the tests (\<^verbatim>\<open>MockComputeClient\<close>): it answers every list request
  with the given items, every launch request with the given answer, and accepts every
  terminate request.
\<close>

definition mock_client :: "Instance list \<Rightarrow> go_error + Instance \<Rightarrow> ClientInterface" where
  "mock_client items launched =
     \<lparr> LaunchInstance = (\<lambda>req. launched),
       GetInstance = (\<lambda>ident. Inl (ErrorString ''unexpected call'')),
       TerminateInstance = (\<lambda>ident. None),
       ListInstances = (\<lambda>compartment. Inr items) \<rparr>"

definition test_cfg :: Config where
  "test_cfg =
     \<lparr> Config.AvailabilityDomain = ''ad'', CompartmentId = ''compartment'',
       Config.SubnetID = ''subnet'',
       Config.NsgID = ''nsg'', TenancyID = ''tenancy'', UserID = ''user'', Region = ''region'',
       Fingerprint = ''fingerprint'', PrivateKeyPath = ''private_key_path'',
       PrivateKeyPassword = [] \<rparr>"

text \<open>
  An overlay of the earlier revision, decoded from \<^verbatim>\<open>{"disable_updates": false}\<close>.
\<close>

definition clearing_overlay :: extraSpecs_ptr where
  "clearing_overlay =
     \<lparr> ptr_Ocpus = Finite 0, ptr_MemoryInGBs = Finite 0, ptr_BootVolumeSize = 0,
       ptr_SSHPublicKeys = [], ptr_DisableUpdates = Some False, ptr_EnableBootDebug = None,
       ptr_ExtraPackages = [] \<rparr>"

text \<open>A provider whose compute client answers every launch with the given instance.\<close>

definition test_provider :: "Instance \<Rightarrow> OciProvider" where
  "test_provider launched =
     \<lparr> OciProvider.cfg = test_cfg,
       ociCli = \<lparr> OciCli.cfg = test_cfg, computeClient = mock_client [] (Inr launched) \<rparr>,
       controllerID = ''controller'' \<rparr>"

definition provisioning_instance :: Instance where
  "provisioning_instance =
     \<lparr> Id = Some ''ocid1.instance.oc1.iad.aaaaaaaamf7'',
       FreeformTags = [''Name'' \<mapsto> ''garm-instance''],
       LifecycleState = Provisioning \<rparr>"

section \<open>Status mapping\<close>

text \<open>
  Claim C8. The mapping from the cloud lifecycle state to the normalized status is total and
  deterministic: for every instance record that carries an identifier, the conversion
  returns, and the status of the result is Running for the state Running, Stopped for the
  states Stopped and Terminated, and Unknown for every other state (Provisioning, Starting,
  Stopping, Terminating, Moving, CreatingImage and any state unknown to the SDK).
\<close>

theorem status_mapping_total:
  "Id inst = Some ident \<Longrightarrow>
   \<exists>d. OciInstanceToProviderInstance inst = Return d \<and>
       Status d =
         (if LifecycleState inst = Running then InstanceRunning
          else if LifecycleState inst = Stopped \<or> LifecycleState inst = Terminated
               then InstanceStopped
          else InstanceStatusUnknown)"
  by (cases "LifecycleState inst") (simp_all add: OciInstanceToProviderInstance_def)

theorem status_mapping_total_witness:
  "Id \<lparr> Id = Some ''id'', FreeformTags = [''Name'' \<mapsto> ''name''], LifecycleState = Provisioning \<rparr>
     = Some ''id'' \<and>
   (\<exists>d. OciInstanceToProviderInstance
           \<lparr> Id = Some ''id'', FreeformTags = [''Name'' \<mapsto> ''name''],
             LifecycleState = Provisioning \<rparr> = Return d \<and>
        Status d = InstanceStatusUnknown)"
  using status_mapping_total
    [of "\<lparr> Id = Some ''id'', FreeformTags = [''Name'' \<mapsto> ''name''],
           LifecycleState = Provisioning \<rparr>" "''id''"]
  by simp

section \<open>The resolver\<close>

lemma tags_differ_iff:
  "tags_differ tags ft \<longleftrightarrow> (\<exists>(key, val) \<in> set tags. map_index ft key \<noteq> val)"
  by (induction tags ft rule: tags_differ.induct) auto

text \<open>
  What the scan computes: only the first non-terminated instance of the listing is ever
  compared with the constraints.
\<close>

lemma scan_items_first_live:
  "scan_items items tags =
     (case filter (\<lambda>i. LifecycleState i \<noteq> Terminated) items of
        [] \<Rightarrow> None
      | i # rest \<Rightarrow> if tags_differ tags (FreeformTags i) then None else Some i)"
  by (induction items) simp_all

text \<open>
  When the first non-terminated instance of the listing satisfies the constraints, it is
  the answer; terminated instances before it are skipped.
\<close>

lemma scan_items_first_live_matches:
  assumes "filter (\<lambda>i. LifecycleState i \<noteq> Terminated) items = i # rest"
    and "\<not> tags_differ tags (FreeformTags i)"
  shows "scan_items items tags = Some i"
  using assms by (simp add: scan_items_first_live)

lemma scan_items_no_match:
  assumes "\<forall>i \<in> set items. LifecycleState i \<noteq> Terminated \<longrightarrow> tags_differ tags (FreeformTags i)"
  shows "scan_items items tags = None"
  using assms by (induction items) simp_all

text \<open>
  The resolver never signals a miss by an error: its only error is the listing's, wrapped.
  The branch of \<^verbatim>\<open>DeleteInstance\<close> that answers \<^verbatim>\<open>ErrNotFound\<close> with success is
  reached only when the listing itself fails with an error that wraps the sentinel.
\<close>

lemma FindInstanceByTags_error:
  assumes "FindInstanceByTags o_cli tags = Inl e"
  shows "\<exists>err. ListInstances (computeClient o_cli) (CompartmentId (OciCli.cfg o_cli)) = Inl err
               \<and> e = Wrapped ''error listing instances: '' err"
  using assms by (auto simp: FindInstanceByTags_def split: sum.splits)

lemma DeleteInstance_listing_not_found:
  assumes "\<not> prefix ''ocid1.instance'' h"
    and "ListInstances (computeClient o_cli) (CompartmentId (OciCli.cfg o_cli)) = Inl err"
    and "errors_Is err ErrNotFound"
  shows "OciCli_DeleteInstance o_cli h = Return None"
  using assms by (simp add: OciCli_DeleteInstance_def FindInstanceByTags_def)

text \<open>
  Whenever the listing succeeds and holds no live instance with the name, the resolver
  answers \<^verbatim>\<open>nil, nil\<close> and \<^verbatim>\<open>DeleteInstance\<close> dereferences the nil pointer.
\<close>

lemma DeleteInstance_no_match:
  assumes "\<not> prefix ''ocid1.instance'' h"
    and "ListInstances (computeClient o_cli) (CompartmentId (OciCli.cfg o_cli)) = Inr items"
    and "\<forall>i \<in> set items.
           LifecycleState i \<noteq> Terminated \<longrightarrow> map_index (FreeformTags i) ''Name'' \<noteq> h"
  shows "OciCli_DeleteInstance o_cli h = NilDereference"
proof -
  from assms(3) have "scan_items items [(''Name'', h)] = None"
    by (intro scan_items_no_match) simp
  with assms(1,2) show ?thesis
    by (simp add: OciCli_DeleteInstance_def FindInstanceByTags_def)
qed

text \<open>
  Claim C1, at the failing input: the handle \<open>my-runner\<close> is a name, the listing holds no
  instance at all, and \<^verbatim>\<open>DeleteInstance\<close> does not return: the resolver answers
  \<^verbatim>\<open>nil, nil\<close>, never \<^verbatim>\<open>ErrNotFound\<close>, and the caller dereferences the nil pointer.
\<close>

theorem DeleteInstance_not_found_panics:
  "OciCli_DeleteInstance
     \<lparr> OciCli.cfg = test_cfg, computeClient = mock_client [] (Inl (ErrorString ''unexpected call'')) \<rparr>
     ''my-runner''
   = NilDereference"
  by (simp add: OciCli_DeleteInstance_def FindInstanceByTags_def mock_client_def)

text \<open>
  Claim C2, at the failing input: the listing holds a running instance named \<open>other\<close>, then
  the only instance tagged \<open>Name = my-runner\<close>, running too. The resolver stops at the first
  instance and answers \<^verbatim>\<open>nil, nil\<close>: it does not scan the rest of the listing.
\<close>

theorem FindInstanceByTags_stops_at_first_mismatch:
  "FindInstanceByTags
     \<lparr> OciCli.cfg = test_cfg,
       computeClient = mock_client
         [\<lparr> Id = Some ''ocid1.instance.oc1.iad.a'', FreeformTags = [''Name'' \<mapsto> ''other''],
            LifecycleState = Running \<rparr>,
          \<lparr> Id = Some ''ocid1.instance.oc1.iad.b'', FreeformTags = [''Name'' \<mapsto> ''my-runner''],
            LifecycleState = Running \<rparr>]
         (Inl (ErrorString ''unexpected call'')) \<rparr>
     [(''Name'', ''my-runner'')]
   = Inr None"
  by (simp add: FindInstanceByTags_def mock_client_def map_index_def)

section \<open>Validation of the extra specs\<close>

text \<open>
  The validator's complaints reach the caller word for word, inside the message of the
  error.
\<close>

lemma jsonSchemaValidation_reports:
  assumes "SchemaValidate ext blob = Inr errs" and "errs \<noteq> []"
  shows "jsonSchemaValidation ext blob =
           Some (ErrorString (''schema validation failed: '' @ print_errors errs))"
  using assms by (simp add: jsonSchemaValidation_def)

text \<open>
  The length test of \<^verbatim>\<open>newExtraSpecsFromBootstrapData\<close> only guards the decoding: a
  validator that accepted the empty blob would give the zero overlay.
\<close>

lemma empty_blob_accepted:
  assumes "SchemaValidate ext [] = Inr []" and "ExtraSpecs data = []"
  shows "newExtraSpecsFromBootstrapData ext data = Inr zero_extraSpecs"
  using assms by (simp add: newExtraSpecsFromBootstrapData_def jsonSchemaValidation_def)

text \<open>
  Claim C3, at the failing input. The blob is validated before its length is looked at:
  whenever the validator cannot load the empty blob (the JSON decoder behind
  \<^verbatim>\<open>gojsonschema.NewBytesLoader\<close> answers \<^verbatim>\<open>EOF\<close> on empty input), an empty or absent
  blob makes \<^verbatim>\<open>newExtraSpecsFromBootstrapData\<close> return that error, wrapped twice, and no
  overlay.
\<close>

theorem empty_blob_fails_validation:
  assumes "SchemaValidate ext [] = Inl err" and "ExtraSpecs data = []"
  shows "newExtraSpecsFromBootstrapData ext data =
           Inl (Wrapped ''failed to validate extra specs: ''
                  (Wrapped ''failed to validate schema: '' err))"
  using assms by (simp add: newExtraSpecsFromBootstrapData_def jsonSchemaValidation_def)

theorem empty_blob_fails_validation_witness:
  "SchemaValidate mock_externals [] = Inl (ErrorString ''EOF'') \<and>
   ExtraSpecs (test_bootstrap ''linux'' []) = [] \<and>
   newExtraSpecsFromBootstrapData mock_externals (test_bootstrap ''linux'' []) =
     Inl (Wrapped ''failed to validate extra specs: ''
            (Wrapped ''failed to validate schema: '' (ErrorString ''EOF'')))"
proof -
  have v: "SchemaValidate mock_externals [] = Inl (ErrorString ''EOF'')"
    by (simp add: mock_externals_def)
  have b: "ExtraSpecs (test_bootstrap ''linux'' []) = []"
    by (simp add: test_bootstrap_def)
  from empty_blob_fails_validation [OF v b] v b show ?thesis by simp
qed

section \<open>The merge onto the defaults\<close>

text \<open>The assignments of the merge, collected into one update of the receiver.\<close>

lemma MergeExtraSpecs_closed:
  "MergeExtraSpecs r es =
     r\<lparr> RunnerSpec.Ocpus :=
          (if float32_gt_zero (extraSpecs.Ocpus es) then extraSpecs.Ocpus es
           else defaultOcpusAllocation),
        RunnerSpec.MemoryInGBs :=
          (if float32_gt_zero (extraSpecs.MemoryInGBs es) then extraSpecs.MemoryInGBs es
           else defaultMemoryAllocation),
        RunnerSpec.BootVolumeSize :=
          (if 0 <s extraSpecs.BootVolumeSize es then extraSpecs.BootVolumeSize es
           else defaultBootVolumeSize),
        RunnerSpec.SSHPublicKeys :=
          (if extraSpecs.SSHPublicKeys es \<noteq> [] then extraSpecs.SSHPublicKeys es
           else RunnerSpec.SSHPublicKeys r),
        RunnerSpec.DisableUpdates :=
          (extraSpecs.DisableUpdates es \<or> RunnerSpec.DisableUpdates r),
        RunnerSpec.EnableBootDebug :=
          (extraSpecs.EnableBootDebug es \<or> RunnerSpec.EnableBootDebug r) \<rparr>"
  by (simp add: MergeExtraSpecs_def Let_def)

lemma MergeExtraSpecs_fields:
  "RunnerSpec.Ocpus (MergeExtraSpecs r es) =
     (if float32_gt_zero (extraSpecs.Ocpus es) then extraSpecs.Ocpus es else Finite 1)"
  "RunnerSpec.MemoryInGBs (MergeExtraSpecs r es) =
     (if float32_gt_zero (extraSpecs.MemoryInGBs es) then extraSpecs.MemoryInGBs es
      else Finite 4)"
  "RunnerSpec.BootVolumeSize (MergeExtraSpecs r es) =
     (if 0 <s extraSpecs.BootVolumeSize es then extraSpecs.BootVolumeSize es else 255)"
  "RunnerSpec.SSHPublicKeys (MergeExtraSpecs r es) =
     (if extraSpecs.SSHPublicKeys es \<noteq> [] then extraSpecs.SSHPublicKeys es
      else RunnerSpec.SSHPublicKeys r)"
  "RunnerSpec.DisableUpdates (MergeExtraSpecs r es) =
     (extraSpecs.DisableUpdates es \<or> RunnerSpec.DisableUpdates r)"
  "RunnerSpec.EnableBootDebug (MergeExtraSpecs r es) =
     (extraSpecs.EnableBootDebug es \<or> RunnerSpec.EnableBootDebug r)"
  by (simp_all add: MergeExtraSpecs_closed defaultOcpusAllocation_def
        defaultMemoryAllocation_def defaultBootVolumeSize_def)

lemma MergeExtraSpecs_BootstrapParams:
  "BootstrapParams (MergeExtraSpecs r es) = BootstrapParams r"
  by (simp add: MergeExtraSpecs_closed)

text \<open>A value that is not greater than zero is none of the defaults.\<close>

lemma float32_default_differs:
  "\<not> float32_gt_zero x \<Longrightarrow> x \<noteq> Finite 1"
  "\<not> float32_gt_zero x \<Longrightarrow> x \<noteq> Finite 4"
  by (cases x; simp)+

lemma int64_default_differs: "\<not> 0 <s b \<Longrightarrow> (255 :: int64) \<noteq> b"
  by (auto simp: word_sless_alt)

text \<open>
  Claim C5. For every overlay and every runner spec, the merged CPU count, memory and boot
  volume size are the overlay's value when that value is greater than zero and the default
  (1, 4 and 255) otherwise, so that the merged value equals the overlay's exactly when the
  overlay's is greater than zero; the merged list of SSH public keys is the overlay's when
  that list is not empty, and the list the spec held before otherwise.
\<close>

theorem merge_sizing:
  "RunnerSpec.Ocpus (MergeExtraSpecs r es) =
     (if float32_gt_zero (extraSpecs.Ocpus es) then extraSpecs.Ocpus es else Finite 1) \<and>
   RunnerSpec.MemoryInGBs (MergeExtraSpecs r es) =
     (if float32_gt_zero (extraSpecs.MemoryInGBs es) then extraSpecs.MemoryInGBs es
      else Finite 4) \<and>
   RunnerSpec.BootVolumeSize (MergeExtraSpecs r es) =
     (if 0 <s extraSpecs.BootVolumeSize es then extraSpecs.BootVolumeSize es else 255) \<and>
   RunnerSpec.SSHPublicKeys (MergeExtraSpecs r es) =
     (if extraSpecs.SSHPublicKeys es \<noteq> [] then extraSpecs.SSHPublicKeys es
      else RunnerSpec.SSHPublicKeys r) \<and>
   (RunnerSpec.Ocpus (MergeExtraSpecs r es) = extraSpecs.Ocpus es)
     = float32_gt_zero (extraSpecs.Ocpus es) \<and>
   (RunnerSpec.MemoryInGBs (MergeExtraSpecs r es) = extraSpecs.MemoryInGBs es)
     = float32_gt_zero (extraSpecs.MemoryInGBs es) \<and>
   (RunnerSpec.BootVolumeSize (MergeExtraSpecs r es) = extraSpecs.BootVolumeSize es)
     = (0 <s extraSpecs.BootVolumeSize es)"
  using float32_default_differs [of "extraSpecs.Ocpus es"]
    float32_default_differs [of "extraSpecs.MemoryInGBs es"]
    int64_default_differs [of "extraSpecs.BootVolumeSize es"]
  by (auto simp: MergeExtraSpecs_fields)

text \<open>
  Claim C7, as stated, at the overlay of the earlier revision that holds the toggle with the
  value false: the spec has disable-updates set, and the merge clears it.
\<close>

theorem explicit_false_clears_toggle:
  "RunnerSpec.DisableUpdates test_spec \<and>
   \<not> RunnerSpec.DisableUpdates (MergeExtraSpecs_ptr test_spec clearing_overlay)"
  by (simp add: test_spec_def clearing_overlay_def MergeExtraSpecs_ptr_def)

text \<open>
  Claim C7, amended. With the overlay whose toggles are plain booleans, the merge is
  monotonic: a toggle that is true on the spec is true after the merge, whatever the
  overlay holds. With the overlay of the earlier revision, whose toggles are pointers, a
  toggle the overlay lacks leaves the spec's value, and a toggle the overlay holds
  replaces it, be it true or false.
\<close>

theorem toggle_merge:
  "(RunnerSpec.DisableUpdates r \<longrightarrow> RunnerSpec.DisableUpdates (MergeExtraSpecs r es)) \<and>
   (RunnerSpec.EnableBootDebug r \<longrightarrow> RunnerSpec.EnableBootDebug (MergeExtraSpecs r es)) \<and>
   RunnerSpec.DisableUpdates (MergeExtraSpecs_ptr r pes) =
     (case ptr_DisableUpdates pes of None \<Rightarrow> RunnerSpec.DisableUpdates r | Some b \<Rightarrow> b) \<and>
   RunnerSpec.EnableBootDebug (MergeExtraSpecs_ptr r pes) =
     (case ptr_EnableBootDebug pes of None \<Rightarrow> RunnerSpec.EnableBootDebug r | Some b \<Rightarrow> b)"
  by (auto simp: MergeExtraSpecs_fields MergeExtraSpecs_ptr_def Let_def split: option.splits)

theorem toggle_merge_witness:
  "RunnerSpec.DisableUpdates test_spec \<and>
   RunnerSpec.DisableUpdates (MergeExtraSpecs test_spec zero_extraSpecs) \<and>
   RunnerSpec.EnableBootDebug test_spec \<and>
   RunnerSpec.EnableBootDebug (MergeExtraSpecs test_spec zero_extraSpecs) \<and>
   RunnerSpec.EnableBootDebug (MergeExtraSpecs_ptr test_spec clearing_overlay) \<and>
   \<not> RunnerSpec.DisableUpdates (MergeExtraSpecs_ptr test_spec clearing_overlay)"
proof -
  have d: "RunnerSpec.DisableUpdates test_spec" and e: "RunnerSpec.EnableBootDebug test_spec"
    by (simp_all add: test_spec_def)
  have p: "ptr_DisableUpdates clearing_overlay = Some False"
    and q: "ptr_EnableBootDebug clearing_overlay = None"
    by (simp_all add: clearing_overlay_def)
  from toggle_merge [of test_spec zero_extraSpecs clearing_overlay] d e show ?thesis
    unfolding p q by simp
qed

text \<open>
  Claim C9. The merge is idempotent: merging the same overlay a second time, onto the
  result of the first merge, gives the result of the first merge, field for field.
\<close>

theorem merge_idempotent:
  "MergeExtraSpecs (MergeExtraSpecs r es) es = MergeExtraSpecs r es"
  unfolding MergeExtraSpecs_closed by simp

section \<open>Building the runner spec\<close>





section \<open>Creating an instance\<close>

lemma mock_build_succeeds:
  "\<exists>spec. GetRunnerSpecFromBootstrapParams mock_externals test_cfg
             (test_bootstrap ''linux'' ''{}'') ''controller'' = Inr spec"
  by (simp add: GetRunnerSpecFromBootstrapParams_def newExtraSpecsFromBootstrapData_def
        jsonSchemaValidation_def SetUserData_def ComposeUserData_def Let_def
        MergeExtraSpecs_BootstrapParams mock_externals_def test_bootstrap_def Linux_def)

text \<open>
  Claim C10. Whenever the runner spec is built and the launch call succeeds with an instance
  record that carries an identifier, \<^verbatim>\<open>CreateInstance\<close> returns a normalized instance
  whose status is running, whatever lifecycle state the record holds: the state is not read.
\<close>

theorem create_instance_reports_running:
  assumes "GetRunnerSpecFromBootstrapParams ext (OciProvider.cfg o_prov) bootstrapParams
             (controllerID o_prov) = Inr spec"
    and "LaunchInstance (computeClient (ociCli o_prov)) (launch_request spec) = Inr ociInstance"
    and "Id ociInstance = Some ident"
  shows "\<exists>d. OciProvider_CreateInstance ext o_prov bootstrapParams = Return (Inr d) \<and>
             Status d = ''running''"
  using assms
  by (simp add: OciProvider_CreateInstance_def OciCli_CreateInstance_def)

theorem create_instance_reports_running_witness:
  "LifecycleState provisioning_instance = Provisioning \<and>
   (\<exists>d. OciProvider_CreateInstance mock_externals (test_provider provisioning_instance)
          (test_bootstrap ''linux'' ''{}'') = Return (Inr d) \<and>
        Status d = ''running'')"
proof -
  obtain spec where s: "GetRunnerSpecFromBootstrapParams mock_externals
       (OciProvider.cfg (test_provider provisioning_instance))
       (test_bootstrap ''linux'' ''{}'') (controllerID (test_provider provisioning_instance))
       = Inr spec"
    using mock_build_succeeds by (auto simp: test_provider_def)
  have l: "LaunchInstance (computeClient (ociCli (test_provider provisioning_instance)))
             (launch_request spec) = Inr provisioning_instance"
    by (simp add: test_provider_def mock_client_def)
  have i: "Id provisioning_instance = Some ''ocid1.instance.oc1.iad.aaaaaaaamf7''"
    by (simp add: provisioning_instance_def)
  from create_instance_reports_running [OF s l i] show ?thesis
    by (simp add: provisioning_instance_def)
qed

end
